theory Spec2Isabelle
  imports Complex_Main
begin

section \<open>Go library functions used by the web console\<close>

text \<open>
  Go strings are byte strings, modelled as \<^typ>\<open>string\<close>. \<open>strings.TrimSpace\<close> removes
  leading and trailing white space as \<open>unicode.IsSpace\<close> defines it; on ASCII input that is
  tab, line feed, vertical tab, form feed, carriage return and space, which is what
  \<open>isSpace\<close> recognises (the multi-byte Unicode spaces are outside the model).
\<close>

definition dquote :: char where
  "dquote = CHR 0x22"

definition isSpace :: "char \<Rightarrow> bool" where
  "isSpace c = (c = CHR 0x09 \<or> c = CHR 0x0A \<or> c = CHR 0x0B \<or> c = CHR 0x0C \<or> c = CHR 0x0D
                \<or> c = CHR '' '')"

definition TrimRight :: "string \<Rightarrow> string" where
  "TrimRight s = rev (dropWhile isSpace (rev s))"

definition TrimSpace :: "string \<Rightarrow> string" where
  "TrimSpace s = TrimRight (dropWhile isSpace s)"

text \<open>\<open>strings.HasPrefix\<close>.\<close>

definition HasPrefix :: "string \<Rightarrow> string \<Rightarrow> bool" where
  "HasPrefix s p = (take (length p) s = p)"

text \<open>\<open>strings.SplitN(s, sep, 2)\<close> for a one-byte separator: cut at the first occurrence.\<close>

definition SplitN2 :: "string \<Rightarrow> char \<Rightarrow> string list" where
  "SplitN2 s sep = (if sep \<in> set s
                    then [takeWhile (\<lambda>c. c \<noteq> sep) s, tl (dropWhile (\<lambda>c. c \<noteq> sep) s)]
                    else [s])"

text \<open>\<open>strings.Split(s, sep)\<close> for a one-byte separator: cut at every occurrence; the
  result always has at least one element.\<close>

fun Split :: "string \<Rightarrow> char \<Rightarrow> string list" where
  "Split [] sep = [[]]"
| "Split (c # cs) sep =
     (if c = sep then [] # Split cs sep
      else (case Split cs sep of
              [] \<Rightarrow> [[c]]
            | f # fs \<Rightarrow> (c # f) # fs))"

text \<open>
  \<open>int64\<close> values are integers with the wrap-around of two's complement written out;
  \<open>go_div\<close> is Go's \<open>/\<close> on integers, which truncates towards zero.
\<close>

definition wrap64 :: "int \<Rightarrow> int" where
  "wrap64 x = (x + 2 ^ 63) mod 2 ^ 64 - 2 ^ 63"

definition go_div :: "int \<Rightarrow> int \<Rightarrow> int" where
  "go_div a b = wrap64 (if (a < 0) = (b < 0) then \<bar>a\<bar> div \<bar>b\<bar> else - (\<bar>a\<bar> div \<bar>b\<bar>))"

text \<open>
  \<open>strconv.Atoi\<close> on a 64-bit platform: an optional sign, then one or more decimal
  digits, and a range check. The result is the value and whether the error is \<open>nil\<close>;
  with a syntax error the value is 0, with a range error it is the nearest bound.
\<close>

definition isDigit :: "char \<Rightarrow> bool" where
  "isDigit c = (c \<in> set ''0123456789'')"

definition digitVal :: "char \<Rightarrow> int" where
  "digitVal c = int (of_char c) - 48"

fun digitsVal :: "string \<Rightarrow> int \<Rightarrow> int" where
  "digitsVal [] acc = acc"
| "digitsVal (c # cs) acc = digitsVal cs (acc * 10 + digitVal c)"

definition Atoi :: "string \<Rightarrow> int \<times> bool" where
  "Atoi s =
     (let neg = (s \<noteq> [] \<and> hd s = CHR ''-'');
          ds = (if s \<noteq> [] \<and> (hd s = CHR ''-'' \<or> hd s = CHR ''+'') then tl s else s)
      in if ds = [] \<or> \<not> list_all isDigit ds then (0, False)
         else (let v = (if neg then - digitsVal ds 0 else digitsVal ds 0)
               in if v < - (2 ^ 63) then (- (2 ^ 63), False)
                  else if 2 ^ 63 \<le> v then (2 ^ 63 - 1, False)
                  else (v, True)))"

text \<open>\<open>strconv.FormatInt(n, 10)\<close>, which is also what the verb \<open>%d\<close> prints.\<close>

fun natDigits :: "nat \<Rightarrow> string" where
  "natDigits n = (if n < 10 then [char_of (48 + n)]
                  else natDigits (n div 10) @ [char_of (48 + n mod 10)])"

declare natDigits.simps [simp del]

definition FormatInt :: "int \<Rightarrow> string" where
  "FormatInt n = (if n < 0 then CHR ''-'' # natDigits (nat (- n)) else natDigits (nat n))"

section \<open>Command lines\<close>

text \<open>
  One pass of the loop of \<open>parseCommandString\<close>: the string is trimmed; a leading double
  quote makes the field run to the next double quote, otherwise it runs to the next space.
  The pair is \<open>stringSplit[0]\<close> and the new value of \<open>theString\<close>.
\<close>

definition restOf :: "string list \<Rightarrow> string" where
  "restOf stringSplit = (if length stringSplit > 1 then stringSplit ! 1 else [])"

definition parseStep :: "string \<Rightarrow> string \<times> string" where
  "parseStep theString =
     (let trimmed = TrimSpace theString;
          stringSplit = (if HasPrefix trimmed [dquote] then SplitN2 (drop 1 trimmed) dquote
                         else SplitN2 trimmed CHR '' '')
      in (hd stringSplit, restOf stringSplit))"

lemma SplitN2_rest_le:
  "length (restOf (SplitN2 s sep)) \<le> length s"
proof (cases "sep \<in> set s")
  case True
  have "length (tl (dropWhile (\<lambda>c. c \<noteq> sep) s)) \<le> length (dropWhile (\<lambda>c. c \<noteq> sep) s)"
    by simp
  also have "\<dots> \<le> length s" by (rule length_dropWhile_le)
  finally show ?thesis using True by (simp add: SplitN2_def restOf_def)
next
  case False
  then show ?thesis by (simp add: SplitN2_def restOf_def)
qed

lemma SplitN2_rest_less:
  "s \<noteq> [] \<Longrightarrow> length (restOf (SplitN2 s sep)) < length s"
proof (cases "sep \<in> set s")
  case True
  then have "dropWhile (\<lambda>c. c \<noteq> sep) s \<noteq> []" by simp
  then have "length (tl (dropWhile (\<lambda>c. c \<noteq> sep) s)) < length (dropWhile (\<lambda>c. c \<noteq> sep) s)"
    by (cases "dropWhile (\<lambda>c. c \<noteq> sep) s") simp_all
  also have "\<dots> \<le> length s" by (rule length_dropWhile_le)
  finally show ?thesis using True by (simp add: SplitN2_def restOf_def)
next
  case False
  assume "s \<noteq> []"
  with False show ?thesis by (simp add: SplitN2_def restOf_def)
qed

lemma length_TrimSpace_le: "length (TrimSpace s) \<le> length s"
proof -
  have "length (TrimSpace s) \<le> length (dropWhile isSpace s)"
    unfolding TrimSpace_def TrimRight_def
    by (metis length_dropWhile_le length_rev)
  also have "\<dots> \<le> length s" by (rule length_dropWhile_le)
  finally show ?thesis .
qed

lemma parseStep_shorter: "theString \<noteq> [] \<Longrightarrow> length (snd (parseStep theString)) < length theString"
proof -
  assume ne: "theString \<noteq> []"
  define t where "t = TrimSpace theString"
  have le: "length t \<le> length theString" unfolding t_def by (rule length_TrimSpace_le)
  show ?thesis
  proof (cases "HasPrefix t [dquote]")
    case True
    then have tne: "t \<noteq> []" by (auto simp: HasPrefix_def)
    have "length (snd (parseStep theString)) \<le> length (drop 1 t)"
      using True SplitN2_rest_le [of "drop 1 t" dquote]
      by (simp add: parseStep_def t_def [symmetric] Let_def)
    also have "\<dots> < length t" using tne by simp
    finally show ?thesis using le by simp
  next
    case False
    show ?thesis
    proof (cases "t = []")
      case True
      with ne False show ?thesis
        by (simp add: parseStep_def t_def [symmetric] Let_def SplitN2_def restOf_def)
    next
      case nonempty: False
      have "length (snd (parseStep theString)) < length t"
        using False SplitN2_rest_less [OF nonempty, of "CHR '' ''"]
        by (simp add: parseStep_def t_def [symmetric] Let_def)
      then show ?thesis using le by simp
    qed
  qed
qed

function parseLoop :: "string \<Rightarrow> string list \<Rightarrow> string list" where
  "parseLoop theString result =
     (if theString = [] then result
      else parseLoop (snd (parseStep theString)) (result @ [fst (parseStep theString)]))"
  by pat_completeness auto
termination
  by (relation "measure (\<lambda>(s, r). length s)") (auto simp: parseStep_shorter)

declare parseLoop.simps [simp del]

definition parseCommandString :: "string \<Rightarrow> string list" where
  "parseCommandString theString = parseLoop theString []"





section \<open>Run-time history\<close>

text \<open>
  The loop of \<open>runTask\<close> that trims the sorted run times: while there are ten or more,
  the slice \<open>[1 : len - 2]\<close> replaces the list.
\<close>

function trimRunTimes :: "int list \<Rightarrow> int list" where
  "trimRunTimes ts =
     (if length ts \<ge> 10 then trimRunTimes (take (length ts - 2 - 1) (drop 1 ts)) else ts)"
  by pat_completeness auto
termination
  by (relation "measure length") auto

declare trimRunTimes.simps [simp del]

text \<open>The text of \<open>runTimes.txt\<close>: the run times in decimal, one per line.\<close>

fun runTimesText :: "int list \<Rightarrow> string" where
  "runTimesText [] = []"
| "runTimesText [t] = FormatInt t"
| "runTimesText (t # ts) = FormatInt t @ [CHR 0x0A] @ runTimesText ts"

text \<open>Reading \<open>runTimes.txt\<close> back: the lines that \<open>Atoi\<close> accepts, in order.\<close>

definition readRunTimes :: "string \<Rightarrow> int list" where
  "readRunTimes txt = map (\<lambda>l. fst (Atoi l)) (filter (\<lambda>l. snd (Atoi l)) (Split txt (CHR 0x0A)))"

text \<open>
  The guess of the next run time that the \<open>runTask\<close> call stores in
  \<open>taskRuntimeGuesses\<close>: the loop adds the run times up in an \<open>int64\<close>, and the quotient
  (or 10 for no run times) is converted to \<open>float64\<close>; the model keeps the integer, which
  the conversion represents exactly up to \<open>2 ^ 53\<close>.
\<close>

fun sumRunTimes :: "int list \<Rightarrow> int \<Rightarrow> int" where
  "sumRunTimes [] totalRunTime = totalRunTime"
| "sumRunTimes (t # ts) totalRunTime = sumRunTimes ts (wrap64 (totalRunTime + t))"

definition runtimeGuess :: "int list \<Rightarrow> int" where
  "runtimeGuess runTimes =
     (if length runTimes = 0 then 10
      else go_div (sumRunTimes runTimes 0) (int (length runTimes)))"

text \<open>
  The trimming as the specification words it: while there are ten or more entries, the
  entry at the smallest index is removed.
\<close>

function spec_trimHistory :: "int list \<Rightarrow> int list" where
  "spec_trimHistory ts = (if length ts \<ge> 10 then spec_trimHistory (tl ts) else ts)"
  by pat_completeness auto
termination
  by (relation "measure length") auto

declare spec_trimHistory.simps [simp del]

section \<open>Secrets and tokens\<close>

text \<open>
  \<open>bcrypt.CompareHashAndPassword\<close> belongs to a library: it rejects every hash shorter
  than 59 bytes (\<open>ErrHashTooShort\<close>) before any comparison; which of the longer hashes
  verify which passwords is left open, as the set \<open>matches\<close> of (hash, password) pairs.
\<close>

definition minHashSize :: nat where
  "minHashSize = 59"

definition CompareHashAndPassword :: "(string \<times> string) set \<Rightarrow> string \<Rightarrow> string \<Rightarrow> bool" where
  "CompareHashAndPassword matches theHash thePassword =
     (if length theHash < minHashSize then False else (theHash, thePassword) \<in> matches)"

definition checkPasswordHash :: "(string \<times> string) set \<Rightarrow> string \<Rightarrow> string \<Rightarrow> bool" where
  "checkPasswordHash matches thePassword theHash =
     (if thePassword = [] \<and> theHash = [] then True
      else CompareHashAndPassword matches theHash thePassword)"

definition tokenTimeout :: int where
  "tokenTimeout = 600"

definition tokenCheckPeriod :: int where
  "tokenCheckPeriod = 60"

text \<open>A Go map from strings to \<open>int64\<close> reads 0 at a missing key.\<close>

definition int64At :: "(string \<rightharpoonup> int) \<Rightarrow> string \<Rightarrow> int" where
  "int64At m k = (case m k of None \<Rightarrow> 0 | Some v \<Rightarrow> v)"

text \<open>
  One pass of \<open>clearExpiredTokens\<close> at the time \<open>currentTimestamp\<close>: every token whose
  timestamp is below \<open>currentTimestamp - tokenTimeout\<close> is deleted.
\<close>

definition sweepTokens :: "int \<Rightarrow> (string \<rightharpoonup> int) \<Rightarrow> (string \<rightharpoonup> int)" where
  "sweepTokens currentTimestamp tokens =
     (\<lambda>token. case tokens token of
                 None \<Rightarrow> None
               | Some timestamp \<Rightarrow>
                   if wrap64 (currentTimestamp - tokenTimeout) > timestamp then None
                   else Some timestamp)"

text \<open>
  \<open>clearExpiredTokens\<close> never returns: it sweeps, sleeps \<open>tokenCheckPeriod\<close> seconds and
  starts again. The model runs the first \<open>n\<close> passes, the first one at \<open>start\<close>, on a token
  map that nothing else writes meanwhile, and idealises the sleep as exact.
\<close>

fun clearExpiredTokens :: "nat \<Rightarrow> int \<Rightarrow> (string \<rightharpoonup> int) \<Rightarrow> (string \<rightharpoonup> int)" where
  "clearExpiredTokens 0 start tokens = tokens"
| "clearExpiredTokens (Suc n) start tokens =
     clearExpiredTokens n (start + tokenCheckPeriod) (sweepTokens start tokens)"

section \<open>The state of the service\<close>

datatype go_panic = IndexOutOfRange | NilDereference

text \<open>What the file system holds at a path: nothing, a file that cannot be opened, or a
  file with its text.\<close>

datatype file_status = NotExist | Unreadable | Content string

record cmd =
  cmdPath :: string
  cmdArgs :: "string list"
  cmdDir :: string

text \<open>The global maps of the program, and the files under its working directory.\<close>

record state =
  files :: "string \<Rightarrow> file_status"
  tokens :: "string \<rightharpoonup> int"
  runningTasks :: "string \<rightharpoonup> cmd"
  taskOutputs :: "string \<rightharpoonup> string list"
  taskStartTimes :: "string \<rightharpoonup> int"
  taskRunTimes :: "string \<rightharpoonup> int list"
  taskRuntimeGuesses :: "string \<rightharpoonup> int"
  taskStopTimes :: "string \<rightharpoonup> int"

definition noFiles :: "string \<Rightarrow> file_status" where
  "noFiles p = NotExist"

text \<open>At program start every map is empty.\<close>

definition initialState :: "(string \<Rightarrow> file_status) \<Rightarrow> state" where
  "initialState fs =
     \<lparr>files = fs, tokens = Map.empty, runningTasks = Map.empty, taskOutputs = Map.empty,
      taskStartTimes = Map.empty, taskRunTimes = Map.empty, taskRuntimeGuesses = Map.empty,
      taskStopTimes = Map.empty\<rparr>"

text \<open>Go maps read the zero value at a missing key: the empty string, the nil slice.\<close>

definition stringAt :: "(string \<rightharpoonup> string) \<Rightarrow> string \<Rightarrow> string" where
  "stringAt m k = (case m k of None \<Rightarrow> [] | Some v \<Rightarrow> v)"

definition sliceAt :: "(string \<rightharpoonup> 'a list) \<Rightarrow> string \<Rightarrow> 'a list" where
  "sliceAt m k = (case m k of None \<Rightarrow> [] | Some v \<Rightarrow> v)"

definition taskIsRunning :: "state \<Rightarrow> string \<Rightarrow> bool" where
  "taskIsRunning s theTaskID = (runningTasks s theTaskID \<noteq> None)"

section \<open>Task configuration\<close>

text \<open>
  The lines a \<open>bufio.Scanner\<close> yields: the text cut at line feeds, a final empty piece
  dropped, one trailing carriage return removed from each line (lines are taken to be
  within the scanner's buffer size).
\<close>

definition dropCR :: "string \<Rightarrow> string" where
  "dropCR l = (if l \<noteq> [] \<and> last l = CHR 0x0D then butlast l else l)"

definition scanLines :: "string \<Rightarrow> string list" where
  "scanLines txt =
     (let parts = Split txt (CHR 0x0A)
      in map dropCR (if last parts = [] then butlast parts else parts))"

definition defaultDetails :: "string \<Rightarrow> (string \<rightharpoonup> string)" where
  "defaultDetails theTaskID =
     [''taskID'' \<mapsto> theTaskID, ''title'' \<mapsto> [], ''description'' \<mapsto> [], ''secret'' \<mapsto> [],
      ''public'' \<mapsto> ''N'', ''ratelimit'' \<mapsto> ''0'', ''progress'' \<mapsto> ''N'', ''command'' \<mapsto> []]"

text \<open>The scanner loop of \<open>getTaskDetails\<close>: \<open>itemSplit[1]\<close> is read whatever the length
  of \<open>itemSplit\<close>, so a line that splits into one part panics.\<close>

fun readConfigLines :: "string list \<Rightarrow> (string \<rightharpoonup> string) \<Rightarrow> go_panic + (string \<rightharpoonup> string)" where
  "readConfigLines [] taskDetails = Inr taskDetails"
| "readConfigLines (l # ls) taskDetails =
     (let itemSplit = SplitN2 l (CHR '':'')
      in if length itemSplit \<le> 1 then Inl IndexOutOfRange
         else readConfigLines ls
                (taskDetails(TrimSpace (itemSplit ! 0) \<mapsto> TrimSpace (itemSplit ! 1))))"

text \<open>\<open>getTaskDetails\<close> returns the details and an optional error, or panics.\<close>

definition getTaskDetails ::
  "(string \<Rightarrow> file_status) \<Rightarrow> string \<Rightarrow> go_panic + ((string \<rightharpoonup> string) \<times> string option)" where
  "getTaskDetails fs theTaskID =
     (case fs (''tasks/'' @ theTaskID @ ''/config.txt'') of
        NotExist \<Rightarrow> Inr (Map.empty, Some ''Invalid taskID'')
      | Unreadable \<Rightarrow> Inr (Map.empty, Some ''Can't open Task config file.'')
      | Content txt \<Rightarrow>
          (case readConfigLines (scanLines txt) (defaultDetails theTaskID) of
             Inl p \<Rightarrow> Inl p
           | Inr taskDetails \<Rightarrow> Inr (taskDetails, None)))"

section \<open>The background run of a Task\<close>

text \<open>
  \<open>runTask\<close> runs as a goroutine. What the operating system does is an input: whether
  \<open>StdoutPipe\<close> and \<open>Start\<close> succeed, the chunks the reads of the pipe return before
  the first read error, the clock at that moment and whether \<open>runTimes.txt\<close> can be written.
\<close>

datatype spawn = PipeFails | StartFails | Started

text \<open>One successful read: the chunk is cut at line feeds and the lines that are not
  blank are appended to the output of the Task.\<close>

definition captureChunk :: "string \<Rightarrow> string \<Rightarrow> state \<Rightarrow> state" where
  "captureChunk theTaskID chunk s =
     s\<lparr>taskOutputs := (taskOutputs s)(theTaskID \<mapsto>
          sliceAt (taskOutputs s) theTaskID
          @ filter (\<lambda>l. TrimSpace l \<noteq> []) (Split chunk (CHR 0x0A)))\<rparr>"

text \<open>After the first read error: stop time, run time, the sorted and trimmed history, the
  history file, and the Task leaves \<open>runningTasks\<close>.\<close>

definition finishRun :: "int \<Rightarrow> bool \<Rightarrow> string \<Rightarrow> state \<Rightarrow> state" where
  "finishRun stopTime writeOk theTaskID s =
     (let runTime = wrap64 (stopTime - int64At (taskStartTimes s) theTaskID);
          runTimes = trimRunTimes (sort (sliceAt (taskRunTimes s) theTaskID @ [runTime]));
          path = ''tasks/'' @ theTaskID @ ''/runTimes.txt''
      in s\<lparr>taskStopTimes := (taskStopTimes s)(theTaskID \<mapsto> stopTime),
            taskRunTimes := (taskRunTimes s)(theTaskID \<mapsto> runTimes),
            files := (if writeOk then (files s)(path := Content (runTimesText runTimes))
                      else files s),
            runningTasks := (runningTasks s)(theTaskID := None)\<rparr>)"

definition runTask ::
  "spawn \<Rightarrow> string list \<Rightarrow> int \<Rightarrow> bool \<Rightarrow> string \<Rightarrow> state \<Rightarrow> go_panic + state" where
  "runTask sp chunks stopTime writeOk theTaskID s =
     (let s0 = s\<lparr>taskOutputs := (taskOutputs s)(theTaskID \<mapsto> [])\<rparr>
      in case runningTasks s theTaskID of
           None \<Rightarrow> Inl NilDereference
         | Some c \<Rightarrow>
             (case sp of
                PipeFails \<Rightarrow> Inr s0
              | StartFails \<Rightarrow> Inr s0
              | Started \<Rightarrow> Inr (finishRun stopTime writeOk theTaskID
                                  (fold (captureChunk theTaskID) chunks s0))))"

section \<open>Requests\<close>

text \<open>
  The form values and the path of a request, and what the handler reads from outside
  while it serves one: the clock (at the top of the handler, when a Task is started, and
  when progress is computed), the random string of \<open>generateRandomString\<close>, the pairs
  that bcrypt verifies, and the value of the floating-point expression
  \<open>int((float64(currentTime - start) / guess) * 100)\<close>, which the model does not compute.
\<close>

record request =
  urlPath :: string
  formTaskID :: string
  formToken :: string
  formSecret :: string
  formLine :: string

record env =
  bcryptMatches :: "(string \<times> string) set"
  currentTimestamp :: int
  startTimestamp :: int
  currentTime :: int
  randomString :: string
  floatPercentage :: int

text \<open>What a handler leaves behind: the text written to the response, a panic if it
  ended in one, and the Task for which \<open>go runTask\<close> was issued.\<close>

record reply =
  body :: string
  panicked :: "go_panic option"
  started :: "string option"

definition say :: "string \<Rightarrow> reply" where
  "say txt = \<lparr>body = txt, panicked = None, started = None\<rparr>"

text \<open>The authorisation step of the handler: the flag and \<open>authorisationError\<close>.\<close>

definition authorise ::
  "(string \<times> string) set \<Rightarrow> (string \<rightharpoonup> int) \<Rightarrow> string \<Rightarrow> string \<Rightarrow> string \<Rightarrow> bool \<times> string" where
  "authorise matches toks token secret storedSecret =
     (if token \<noteq> [] then
        (if int64At toks token = 0 then (False, ''invalid or expired token'')
         else (True, ''unknown error''))
      else if checkPasswordHash matches secret storedSecret then (True, ''unknown error'')
      else (False, ''incorrect secret''))"

text \<open>The branch of \<open>/api/runTask\<close>.\<close>

definition apiRunTask ::
  "env \<Rightarrow> string \<Rightarrow> (string \<rightharpoonup> string) \<Rightarrow> int \<Rightarrow> state \<Rightarrow> reply \<times> state" where
  "apiRunTask e taskID taskDetails rateLimit s =
     (if taskIsRunning s taskID then (say ''OK'', s)
      else if wrap64 (currentTimestamp e - int64At (taskStopTimes s) taskID) < rateLimit then
        (say (''ERROR: Rate limit ('' @ FormatInt rateLimit @ '' seconds) exceeded - try again in ''
              @ FormatInt (wrap64 (rateLimit
                   - wrap64 (currentTimestamp e - int64At (taskStopTimes s) taskID)))
              @ '' seconds.''), s)
      else
        (let commandArray = parseCommandString (stringAt taskDetails ''command'');
             commandArgs = (if length commandArray > 0 then drop 1 commandArray else [])
         in if commandArray = [] then
              (\<lparr>body = [], panicked = Some IndexOutOfRange, started = None\<rparr>, s)
            else
              (let command = \<lparr>cmdPath = commandArray ! 0, cmdArgs = commandArgs,
                               cmdDir = ''tasks/'' @ taskID\<rparr>;
                   runTimes = (case files s (''tasks/'' @ taskID @ ''/runTimes.txt'') of
                                 Content txt \<Rightarrow> readRunTimes txt
                               | _ \<Rightarrow> [])
               in (\<lparr>body = ''OK'', panicked = None, started = Some taskID\<rparr>,
                   s\<lparr>runningTasks := (runningTasks s)(taskID \<mapsto> command),
                     taskRunTimes := (taskRunTimes s)(taskID \<mapsto> runTimes),
                     taskRuntimeGuesses := (taskRuntimeGuesses s)(taskID \<mapsto> runtimeGuess runTimes),
                     taskStartTimes := (taskStartTimes s)(taskID \<mapsto> startTimestamp e)\<rparr>))))"

text \<open>The branch of \<open>/api/getTaskOutput\<close>. A negative line number makes the first read
  of the output slice panic, after the progress line was appended.\<close>

definition progressLine :: "int \<Rightarrow> string" where
  "progressLine percentage =
     ''Progress: Progress '' @ FormatInt (if percentage > 100 then 100 else percentage) @ ''%''"

definition apiGetTaskOutput ::
  "env \<Rightarrow> string \<Rightarrow> string \<Rightarrow> (string \<rightharpoonup> string) \<Rightarrow> state \<Rightarrow> reply \<times> state" where
  "apiGetTaskOutput e line taskID taskDetails s =
     (let outputLineNumber = (if line \<noteq> [] then fst (Atoi line) else 0);
          written = (if line \<noteq> [] \<and> \<not> snd (Atoi line)
                     then ''ERROR: Line number not parsable.'' else []);
          s1 = (if stringAt taskDetails ''progress'' = ''Y''
                then s\<lparr>taskOutputs := (taskOutputs s)(taskID \<mapsto>
                         sliceAt (taskOutputs s) taskID @ [progressLine (floatPercentage e)])\<rparr>
                else s);
          outputs = sliceAt (taskOutputs s1) taskID
      in if outputLineNumber < 0 then
           (\<lparr>body = written, panicked = Some IndexOutOfRange, started = None\<rparr>, s1)
         else
           (say (written
                 @ concat (map (\<lambda>l. l @ [CHR 0x0A]) (drop (nat outputLineNumber) outputs))
                 @ (if runningTasks s1 taskID = None
                    then (if stringAt taskDetails ''progress'' = ''Y''
                          then ''Progress: Progress 100%'' @ [CHR 0x0A] else [])
                         @ ''ERROR: EOF''
                    else [])), s1))"

text \<open>\<open>strings.Replace(s, old, new, -1)\<close> for a non-empty \<open>old\<close>, and the page that the
  \<open>/view\<close> and \<open>/run\<close> paths serve.\<close>

function Replace :: "string \<Rightarrow> string \<Rightarrow> string \<Rightarrow> string" where
  "Replace s old new =
     (if s = [] \<or> old = [] then s
      else if HasPrefix s old then new @ Replace (drop (length old) s) old new
      else hd s # Replace (tl s) old new)"
  by pat_completeness auto
termination
  by (relation "measure (\<lambda>(s, old, new). length s)") auto

declare Replace.simps [simp del]

definition webconsolePage :: "string \<Rightarrow> string \<Rightarrow> string \<Rightarrow> string" where
  "webconsolePage webconsoleString taskID token =
     Replace (Replace webconsoleString (''taskID = '' @ [dquote, dquote])
                (''taskID = '' @ [dquote] @ taskID @ [dquote]))
       (''token = '' @ [dquote, dquote]) (''token = '' @ [dquote] @ token @ [dquote])"

text \<open>The chain of path tests that an authorised request goes through.\<close>

definition dispatch ::
  "env \<Rightarrow> request \<Rightarrow> string \<Rightarrow> string \<Rightarrow> (string \<rightharpoonup> string) \<Rightarrow> int \<Rightarrow> state \<Rightarrow> reply \<times> state" where
  "dispatch e r taskID token taskDetails rateLimit s =
     (if HasPrefix (urlPath r) ''/view'' \<or> HasPrefix (urlPath r) ''/run'' then
        (case files s ''www/webconsole.html'' of
           Content webconsoleString \<Rightarrow> (say (webconsolePage webconsoleString taskID token), s)
         | _ \<Rightarrow> (say [], s))
      else if HasPrefix (urlPath r) ''/api/getToken'' then (say token, s)
      else if HasPrefix (urlPath r) ''/api/getTaskDetails'' then
        (say (stringAt taskDetails ''title'' @ [CHR 0x0A] @ stringAt taskDetails ''description''), s)
      else if HasPrefix (urlPath r) ''/api/runTask'' then
        apiRunTask e taskID taskDetails rateLimit s
      else if HasPrefix (urlPath r) ''/api/getTaskOutput'' then
        apiGetTaskOutput e (formLine r) taskID taskDetails s
      else if HasPrefix (urlPath r) ''/api/getTaskRunning'' then
        (say (if taskIsRunning s taskID then ''YES'' else ''NO''), s)
      else if HasPrefix (urlPath r) ''/api/keepAlive'' then (say ''OK'', s)
      else if HasPrefix (urlPath r) ''/api/'' then
        (say (''ERROR: Unknown API call: '' @ urlPath r), s)
      else (say [], s))"

text \<open>
  The handler on a request whose path starts with \<open>/view\<close>, \<open>/run\<close> or \<open>/api/\<close> (and not
  with \<open>/api/getPublicTaskList\<close>): the Task's details, the authorisation, the refresh of
  the token, and the dispatch.
\<close>

definition handleTaskRequest :: "env \<Rightarrow> request \<Rightarrow> state \<Rightarrow> reply \<times> state" where
  "handleTaskRequest e r s =
     (if formTaskID r = [] then (say ''ERROR: Missing parameter taskID.'', s)
      else
        (case getTaskDetails (files s) (formTaskID r) of
           Inl p \<Rightarrow> (\<lparr>body = [], panicked = Some p, started = None\<rparr>, s)
         | Inr (taskDetails, Some taskErr) \<Rightarrow> (say (''ERROR: '' @ taskErr), s)
         | Inr (taskDetails, None) \<Rightarrow>
             (let rateLimit = (if snd (Atoi (stringAt taskDetails ''ratelimit''))
                               then fst (Atoi (stringAt taskDetails ''ratelimit'')) else 0);
                  auth = authorise (bcryptMatches e) (tokens s) (formToken r) (formSecret r)
                           (stringAt taskDetails ''secret'')
              in if fst auth then
                   (let token = (if formToken r = [] then randomString e else formToken r)
                    in dispatch e r (formTaskID r) token taskDetails rateLimit
                         (s\<lparr>tokens := (tokens s)(token \<mapsto> currentTimestamp e)\<rparr>))
                 else (say (''ERROR: Not authorised - '' @ snd auth @ ''.''), s))))"

section \<open>Properties of the run-time guess\<close>

lemma wrap64_id: "- (2 ^ 63) \<le> x \<Longrightarrow> x < 2 ^ 63 \<Longrightarrow> wrap64 x = x"
proof -
  assume a: "- (2 ^ 63) \<le> x" "x < 2 ^ 63"
  have "(x + 2 ^ 63) mod 2 ^ 64 = x + 2 ^ 63"
    by (rule mod_pos_pos_trivial) (use a in simp_all)
  then show ?thesis by (simp add: wrap64_def)
qed







section \<open>Properties of the history trimming\<close>

lemma trimRunTimes_length: "length (trimRunTimes ts) \<le> 9"
proof (induction ts rule: trimRunTimes.induct)
  case (1 ts)
  show ?case
  proof (cases "length ts \<ge> 10")
    case True
    with 1 show ?thesis by (subst trimRunTimes.simps) simp
  next
    case False
    then show ?thesis by (subst trimRunTimes.simps) simp
  qed
qed

lemma trimRunTimes_sorted: "sorted ts \<Longrightarrow> sorted (trimRunTimes ts)"
proof (induction ts rule: trimRunTimes.induct)
  case (1 ts)
  show ?case
  proof (cases "length ts \<ge> 10")
    case True
    from "1.prems" have "sorted (take (length ts - 2 - 1) (drop 1 ts))"
      by (intro sorted_wrt_take sorted_wrt_drop)
    with True "1.IH" show ?thesis by (subst trimRunTimes.simps) simp
  next
    case False
    with "1.prems" show ?thesis by (subst trimRunTimes.simps) simp
  qed
qed

lemma trimRunTimes_subset: "set (trimRunTimes ts) \<subseteq> set ts"
proof (induction ts rule: trimRunTimes.induct)
  case (1 ts)
  show ?case
  proof (cases "length ts \<ge> 10")
    case True
    have "set (take (length ts - 2 - 1) (drop 1 ts)) \<subseteq> set ts"
      by (meson set_take_subset set_drop_subset subset_trans)
    with True "1.IH" show ?thesis by (subst trimRunTimes.simps) auto
  next
    case False
    then show ?thesis by (subst trimRunTimes.simps) simp
  qed
qed

lemma slice_as_butlast: "take (length ts - 2 - 1) (drop 1 ts) = butlast (butlast (tl ts))"
  by (simp add: butlast_conv_take drop_Suc take_tl [symmetric] min_def numeral_3_eq_3)

text \<open>
  Claim C5, as amended. When a run completes, the runner appends the new duration to the
  Task's history, sorts it ascending and, while the length is at least 10, replaces it by
  its slice \<open>[1 : len - 2]\<close>: each pass removes the entry at the smallest index and the
  two entries at the largest indices. The history it leaves has at most 9 entries (so
  never more than 10) and is sorted; a list of fewer than 10 entries is left as it is.
\<close>

theorem finishRun_history:
  "taskRunTimes (finishRun stopTime writeOk theTaskID s) theTaskID
     = Some (trimRunTimes (sort (sliceAt (taskRunTimes s) theTaskID
               @ [wrap64 (stopTime - int64At (taskStartTimes s) theTaskID)])))
   \<and> length (sliceAt (taskRunTimes (finishRun stopTime writeOk theTaskID s)) theTaskID) \<le> 9
   \<and> sorted (sliceAt (taskRunTimes (finishRun stopTime writeOk theTaskID s)) theTaskID)
   \<and> (length ts \<ge> 10 \<longrightarrow> trimRunTimes ts = trimRunTimes (butlast (butlast (tl ts))))
   \<and> (length ts < 10 \<longrightarrow> trimRunTimes ts = ts)"
proof -
  let ?h = "trimRunTimes (sort (sliceAt (taskRunTimes s) theTaskID
               @ [wrap64 (stopTime - int64At (taskStartTimes s) theTaskID)]))"
  have eq: "taskRunTimes (finishRun stopTime writeOk theTaskID s) theTaskID = Some ?h"
    by (simp add: finishRun_def Let_def)
  then have sl: "sliceAt (taskRunTimes (finishRun stopTime writeOk theTaskID s)) theTaskID = ?h"
    by (simp add: sliceAt_def)
  have len: "length ?h \<le> 9" by (rule trimRunTimes_length)
  have srt: "sorted ?h" by (rule trimRunTimes_sorted) simp
  have pass: "length ts \<ge> 10 \<longrightarrow> trimRunTimes ts = trimRunTimes (butlast (butlast (tl ts)))"
  proof
    assume "length ts \<ge> 10"
    then have "trimRunTimes ts = trimRunTimes (take (length ts - 2 - 1) (drop 1 ts))"
      by (subst trimRunTimes.simps) (simp only: if_True)
    then show "trimRunTimes ts = trimRunTimes (butlast (butlast (tl ts)))"
      by (simp only: slice_as_butlast)
  qed
  have stop: "length ts < 10 \<longrightarrow> trimRunTimes ts = ts"
    by (subst trimRunTimes.simps) simp
  from eq len srt pass stop show ?thesis by (simp only: sl) 
qed

theorem finishRun_history_witness:
  "length [1, 2, 3, 4, 5, 6, 7, 8, 9, 10 :: int] \<ge> 10
   \<and> trimRunTimes [1, 2, 3, 4, 5, 6, 7, 8, 9, 10] = [2, 3, 4, 5, 6, 7, 8]
   \<and> length [4, 5 :: int] < 10 \<and> trimRunTimes [4, 5] = [4, 5]"
  using finishRun_history [of 0 True "''t''" "initialState noFiles" "[1, 2, 3, 4, 5, 6, 7, 8, 9, 10]"]
        finishRun_history [of 0 True "''t''" "initialState noFiles" "[4, 5]"]
  by (simp add: trimRunTimes.simps)

text \<open>
  Claim C5, as stated, fails: with nine durations 1..9 in the history and a new duration
  of 10, removing the entry at the smallest index while the length is at least 10 would
  leave 2..10, and the runner leaves 2..8.
\<close>

theorem trim_counterexample:
  "trimRunTimes (sort ([1, 2, 3, 4, 5, 6, 7, 8, 9] @ [10])) = [2, 3, 4, 5, 6, 7, 8]
   \<and> spec_trimHistory (sort ([1, 2, 3, 4, 5, 6, 7, 8, 9] @ [10])) = [2, 3, 4, 5, 6, 7, 8, 9, 10]"
  by code_simp

section \<open>Properties of the authorisation by secret\<close>

text \<open>
  Claim C2, as amended. For a request that carries no token, authorisation succeeds if and
  only if the provided secret and the Task's stored secret are both empty, or the provided
  secret bcrypt-verifies against the stored hash (which a hash shorter than 59 bytes never
  does); so for a Task whose stored secret is empty exactly the empty provided secret is
  authorised. On failure the reason is "incorrect secret".
\<close>

theorem authorise_no_token:
  "fst (authorise matches toks [] secret stored)
     = ((secret = [] \<and> stored = []) \<or> (length stored \<ge> minHashSize \<and> (stored, secret) \<in> matches))
   \<and> (\<not> fst (authorise matches toks [] secret stored)
        \<longrightarrow> snd (authorise matches toks [] secret stored) = ''incorrect secret'')
   \<and> (stored = [] \<longrightarrow> fst (authorise matches toks [] secret stored) = (secret = []))"
  by (auto simp: authorise_def checkPasswordHash_def CompareHashAndPassword_def minHashSize_def)

theorem authorise_no_token_witness:
  "\<not> fst (authorise UNIV (tokens (initialState noFiles)) [] ''x'' [])
   \<and> snd (authorise UNIV (tokens (initialState noFiles)) [] ''x'' []) = ''incorrect secret''
   \<and> fst (authorise UNIV (tokens (initialState noFiles)) [] [] [])"
  using authorise_no_token [of UNIV "tokens (initialState noFiles)" "''x''" "[]"]
        authorise_no_token [of UNIV "tokens (initialState noFiles)" "[]" "[]"]
  by (simp add: minHashSize_def)

text \<open>
  Claim C2, as stated, fails: a Task whose configuration sets no secret, asked for a token
  with the secret \<open>x\<close> and no token, answers that the secret is incorrect, even when bcrypt
  would verify every pair it compares.
\<close>

theorem open_access_counterexample:
  "fst (handleTaskRequest
     \<lparr>bcryptMatches = UNIV, currentTimestamp = 1700000000, startTimestamp = 1700000000,
      currentTime = 1700000000, randomString = ''abcdefghijklmnop'', floatPercentage = 0\<rparr>
     \<lparr>urlPath = ''/api/getToken'', formTaskID = ''t'', formToken = [], formSecret = ''x'',
      formLine = []\<rparr>
     (initialState (noFiles(''tasks/t/config.txt'' := Content ''title: T''))))
   = say ''ERROR: Not authorised - incorrect secret.''"
  by code_simp

section \<open>Properties of the rate limit\<close>

text \<open>
  Claim C7. For a Task that is not running, with rate limit \<open>R\<close> and a recorded last stop
  time that is not after the current time: when \<open>now - lastStopTime < R\<close> the start call
  answers the rate-limit error that reports \<open>R\<close> and the remaining wait
  \<open>R - (now - lastStopTime)\<close>, leaves the state as it was and starts nothing; when
  \<open>now - lastStopTime \<ge> R\<close> the call is not rate-limited: it goes on to the command line,
  and either registers the Task and answers OK or panics on an empty command line.
\<close>

theorem apiRunTask_rate_limit:
  assumes idle: "\<not> taskIsRunning s taskID"
    and stop: "taskStopTimes s taskID = Some lastStopTime"
    and clock: "0 \<le> lastStopTime" "lastStopTime \<le> currentTimestamp e" "currentTimestamp e < 2 ^ 63"
    and limit: "R < 2 ^ 63"
  shows "(currentTimestamp e - lastStopTime < R \<longrightarrow>
            apiRunTask e taskID taskDetails R s
              = (say (''ERROR: Rate limit ('' @ FormatInt R @ '' seconds) exceeded - try again in ''
                      @ FormatInt (R - (currentTimestamp e - lastStopTime)) @ '' seconds.''), s)
            \<and> started (fst (apiRunTask e taskID taskDetails R s)) = None)
       \<and> (currentTimestamp e - lastStopTime \<ge> R \<longrightarrow>
            (parseCommandString (stringAt taskDetails ''command'') = []
               \<and> panicked (fst (apiRunTask e taskID taskDetails R s)) = Some IndexOutOfRange
               \<and> body (fst (apiRunTask e taskID taskDetails R s)) = [])
            \<or> (fst (apiRunTask e taskID taskDetails R s)
                  = \<lparr>body = ''OK'', panicked = None, started = Some taskID\<rparr>
               \<and> taskIsRunning (snd (apiRunTask e taskID taskDetails R s)) taskID))"
proof -
  let ?d = "currentTimestamp e - lastStopTime"
  have d: "int64At (taskStopTimes s) taskID = lastStopTime" using stop by (simp add: int64At_def)
  have "- (2 ^ 63) \<le> ?d" using clock by simp
  moreover have "?d < 2 ^ 63" using clock by simp
  ultimately have w1: "wrap64 ?d = ?d" by (rule wrap64_id)
  have w2: "wrap64 (R - ?d) = R - ?d" if "?d < R"
  proof (rule wrap64_id)
    show "- (2 ^ 63) \<le> R - ?d" using that by simp
    show "R - ?d < 2 ^ 63" using clock limit by simp
  qed
  show ?thesis
  proof (intro conjI impI)
    assume lt: "?d < R"
    then show "apiRunTask e taskID taskDetails R s
              = (say (''ERROR: Rate limit ('' @ FormatInt R @ '' seconds) exceeded - try again in ''
                      @ FormatInt (R - ?d) @ '' seconds.''), s)"
      using idle by (simp add: apiRunTask_def d w1 w2)
    then show "started (fst (apiRunTask e taskID taskDetails R s)) = None"
      by (simp add: say_def)
  next
    assume ge: "?d \<ge> R"
    show "(parseCommandString (stringAt taskDetails ''command'') = []
               \<and> panicked (fst (apiRunTask e taskID taskDetails R s)) = Some IndexOutOfRange
               \<and> body (fst (apiRunTask e taskID taskDetails R s)) = [])
            \<or> (fst (apiRunTask e taskID taskDetails R s)
                  = \<lparr>body = ''OK'', panicked = None, started = Some taskID\<rparr>
               \<and> taskIsRunning (snd (apiRunTask e taskID taskDetails R s)) taskID)"
      using idle ge by (simp add: apiRunTask_def d w1 Let_def taskIsRunning_def)
  qed
qed


theorem apiRunTask_rate_limit_witness:
  "apiRunTask
     \<lparr>bcryptMatches = UNIV, currentTimestamp = 110, startTimestamp = 110, currentTime = 110,
      randomString = ''abcdefghijklmnop'', floatPercentage = 0\<rparr>
     ''t'' ((defaultDetails ''t'')(''command'' \<mapsto> ''echo hello'')) 30
     ((initialState noFiles)\<lparr>taskStopTimes := (taskStopTimes (initialState noFiles))(''t'' \<mapsto> 100)\<rparr>)
   = (say ''ERROR: Rate limit (30 seconds) exceeded - try again in 20 seconds.'',
      (initialState noFiles)\<lparr>taskStopTimes := (taskStopTimes (initialState noFiles))(''t'' \<mapsto> 100)\<rparr>)
   \<and> fst (apiRunTask
     \<lparr>bcryptMatches = UNIV, currentTimestamp = 110, startTimestamp = 110, currentTime = 110,
      randomString = ''abcdefghijklmnop'', floatPercentage = 0\<rparr>
     ''t'' ((defaultDetails ''t'')(''command'' \<mapsto> ''echo hello'')) 10
     ((initialState noFiles)\<lparr>taskStopTimes := (taskStopTimes (initialState noFiles))(''t'' \<mapsto> 100)\<rparr>))
   = \<lparr>body = ''OK'', panicked = None, started = Some ''t''\<rparr>"
proof -
  let ?e = "\<lparr>bcryptMatches = UNIV, currentTimestamp = 110, startTimestamp = 110, currentTime = 110,
      randomString = ''abcdefghijklmnop'', floatPercentage = 0\<rparr>"
  let ?s = "(initialState noFiles)\<lparr>taskStopTimes := (taskStopTimes (initialState noFiles))(''t'' \<mapsto> 100)\<rparr>"
  let ?d = "(defaultDetails ''t'')(''command'' \<mapsto> ''echo hello'')"
  have idle: "\<not> taskIsRunning ?s ''t''" by (simp add: taskIsRunning_def initialState_def)
  have stop: "taskStopTimes ?s ''t'' = Some 100" by simp
  have p: "parseCommandString (stringAt ?d ''command'') = [''echo'', ''hello'']" by code_simp
  have f30: "FormatInt 30 = ''30''" by code_simp
  have f20: "FormatInt 20 = ''20''" by code_simp
  from apiRunTask_rate_limit [of ?s "''t''" 100 ?e 30 ?d, OF idle stop]
       apiRunTask_rate_limit [of ?s "''t''" 100 ?e 10 ?d, OF idle stop]
  show ?thesis by (simp add: p f30 f20)
qed

section \<open>Properties of the configuration parser\<close>





section \<open>Properties of polling with progress reports\<close>

lemma dispatch_getTaskOutput:
  "urlPath r = ''/api/getTaskOutput'' \<Longrightarrow>
   dispatch e r taskID token taskDetails rateLimit s
     = apiGetTaskOutput e (formLine r) taskID taskDetails s"
  by (simp add: dispatch_def HasPrefix_def)

lemma apiGetTaskOutput_outputs:
  "taskOutputs (snd (apiGetTaskOutput e line taskID taskDetails s))
     = (if stringAt taskDetails ''progress'' = ''Y''
        then (taskOutputs s)(taskID \<mapsto>
               sliceAt (taskOutputs s) taskID @ [progressLine (floatPercentage e)])
        else taskOutputs s)"
  by (simp add: apiGetTaskOutput_def Let_def)

lemma apiGetTaskOutput_running:
  "runningTasks (snd (apiGetTaskOutput e line taskID taskDetails s)) = runningTasks s"
  by (simp add: apiGetTaskOutput_def Let_def)

text \<open>
  Claim C9. For a Task whose progress flag is \<open>Y\<close>, every \<open>getTaskOutput\<close> call appends one
  line \<open>Progress: Progress N%\<close> to the stored output of the Task, whether the Task is
  running or not (the set of running Tasks is not touched): two polls leave two lines, a
  chunk captured after a poll lands behind the injected line, a poll from line 0 writes
  the injected line with the rest of the buffer, and the same holds for an authorised
  request that goes through the handler.
\<close>

theorem getTaskOutput_appends_progress:
  assumes progress: "stringAt taskDetails ''progress'' = ''Y''"
  shows "sliceAt (taskOutputs (snd (apiGetTaskOutput e line taskID taskDetails s))) taskID
           = sliceAt (taskOutputs s) taskID @ [progressLine (floatPercentage e)]
       \<and> runningTasks (snd (apiGetTaskOutput e line taskID taskDetails s)) = runningTasks s
       \<and> sliceAt (taskOutputs (snd (apiGetTaskOutput e' line' taskID taskDetails
                    (snd (apiGetTaskOutput e line taskID taskDetails s))))) taskID
           = sliceAt (taskOutputs s) taskID
             @ [progressLine (floatPercentage e), progressLine (floatPercentage e')]
       \<and> sliceAt (taskOutputs (captureChunk taskID chunk
                    (snd (apiGetTaskOutput e line taskID taskDetails s)))) taskID
           = sliceAt (taskOutputs s) taskID @ [progressLine (floatPercentage e)]
             @ filter (\<lambda>l. TrimSpace l \<noteq> []) (Split chunk (CHR 0x0A))
       \<and> (line = [] \<longrightarrow>
            body (fst (apiGetTaskOutput e line taskID taskDetails s))
              = concat (map (\<lambda>l. l @ [CHR 0x0A])
                         (sliceAt (taskOutputs s) taskID @ [progressLine (floatPercentage e)]))
                @ (if runningTasks s taskID = None
                   then ''Progress: Progress 100%'' @ [CHR 0x0A] @ ''ERROR: EOF'' else []))
       \<and> (formTaskID r = taskID \<and> taskID \<noteq> [] \<and> urlPath r = ''/api/getTaskOutput''
            \<and> getTaskDetails (files s) taskID = Inr (taskDetails, None)
            \<and> fst (authorise (bcryptMatches e) (tokens s) (formToken r) (formSecret r)
                     (stringAt taskDetails ''secret''))
          \<longrightarrow> sliceAt (taskOutputs (snd (handleTaskRequest e r s))) taskID
                = sliceAt (taskOutputs s) taskID @ [progressLine (floatPercentage e)])"
proof (intro conjI impI)
  show one: "sliceAt (taskOutputs (snd (apiGetTaskOutput e line taskID taskDetails s))) taskID
           = sliceAt (taskOutputs s) taskID @ [progressLine (floatPercentage e)]"
    for e line s
    using progress by (simp add: apiGetTaskOutput_outputs sliceAt_def)
  show "runningTasks (snd (apiGetTaskOutput e line taskID taskDetails s)) = runningTasks s"
    by (rule apiGetTaskOutput_running)
  show "sliceAt (taskOutputs (snd (apiGetTaskOutput e' line' taskID taskDetails
                    (snd (apiGetTaskOutput e line taskID taskDetails s))))) taskID
           = sliceAt (taskOutputs s) taskID
             @ [progressLine (floatPercentage e), progressLine (floatPercentage e')]"
    by (simp add: one)
  show "sliceAt (taskOutputs (captureChunk taskID chunk
                    (snd (apiGetTaskOutput e line taskID taskDetails s)))) taskID
           = sliceAt (taskOutputs s) taskID @ [progressLine (floatPercentage e)]
             @ filter (\<lambda>l. TrimSpace l \<noteq> []) (Split chunk (CHR 0x0A))"
    using one [of e line s] by (simp add: captureChunk_def sliceAt_def)
next
  assume "line = []"
  then show "body (fst (apiGetTaskOutput e line taskID taskDetails s))
              = concat (map (\<lambda>l. l @ [CHR 0x0A])
                         (sliceAt (taskOutputs s) taskID @ [progressLine (floatPercentage e)]))
                @ (if runningTasks s taskID = None
                   then ''Progress: Progress 100%'' @ [CHR 0x0A] @ ''ERROR: EOF'' else [])"
    using progress by (simp add: apiGetTaskOutput_def Let_def say_def sliceAt_def)
next
  assume a: "formTaskID r = taskID \<and> taskID \<noteq> [] \<and> urlPath r = ''/api/getTaskOutput''
            \<and> getTaskDetails (files s) taskID = Inr (taskDetails, None)
            \<and> fst (authorise (bcryptMatches e) (tokens s) (formToken r) (formSecret r)
                     (stringAt taskDetails ''secret''))"
  then have "snd (handleTaskRequest e r s)
     = snd (apiGetTaskOutput e (formLine r) taskID taskDetails
         (s\<lparr>tokens := (tokens s)((if formToken r = [] then randomString e else formToken r)
                \<mapsto> currentTimestamp e)\<rparr>))"
    by (simp add: handleTaskRequest_def Let_def dispatch_getTaskOutput)
  then show "sliceAt (taskOutputs (snd (handleTaskRequest e r s))) taskID
                = sliceAt (taskOutputs s) taskID @ [progressLine (floatPercentage e)]"
    using progress by (simp add: apiGetTaskOutput_outputs sliceAt_def)
qed


theorem getTaskOutput_appends_progress_witness:
  "sliceAt (taskOutputs (snd (handleTaskRequest
       \<lparr>bcryptMatches = UNIV, currentTimestamp = 110, startTimestamp = 110, currentTime = 110,
        randomString = ''abcdefghijklmnop'', floatPercentage = 50\<rparr>
       \<lparr>urlPath = ''/api/getTaskOutput'', formTaskID = ''t'', formToken = [], formSecret = [],
        formLine = []\<rparr>
       (initialState (noFiles(''tasks/t/config.txt'' := Content ''progress: Y'')))))) ''t''
     = [''Progress: Progress 50%'']
   \<and> body (fst (apiGetTaskOutput
       \<lparr>bcryptMatches = UNIV, currentTimestamp = 110, startTimestamp = 110, currentTime = 110,
        randomString = ''abcdefghijklmnop'', floatPercentage = 50\<rparr>
       [] ''t'' ((defaultDetails ''t'')(''progress'' \<mapsto> ''Y''))
       (initialState (noFiles(''tasks/t/config.txt'' := Content ''progress: Y'')))))
     = ''Progress: Progress 50%'' @ [CHR 0x0A] @ ''Progress: Progress 100%'' @ [CHR 0x0A]
       @ ''ERROR: EOF''"
proof -
  let ?e = "\<lparr>bcryptMatches = UNIV, currentTimestamp = 110, startTimestamp = 110, currentTime = 110,
        randomString = ''abcdefghijklmnop'', floatPercentage = 50\<rparr>"
  let ?r = "\<lparr>urlPath = ''/api/getTaskOutput'', formTaskID = ''t'', formToken = [], formSecret = [],
        formLine = []\<rparr>"
  let ?s = "initialState (noFiles(''tasks/t/config.txt'' := Content ''progress: Y''))"
  let ?d = "(defaultDetails ''t'')(''progress'' \<mapsto> ''Y'')"
  have prog: "stringAt ?d ''progress'' = ''Y''" by (simp add: stringAt_def)
  have ts: "TrimSpace ''progress'' = ''progress''" "TrimSpace '' Y'' = ''Y''" by code_simp+
  have cfg: "getTaskDetails (files ?s) ''t'' = Inr (?d, None)"
    by (simp add: getTaskDetails_def initialState_def scanLines_def dropCR_def SplitN2_def
          Let_def ts)
  have auth: "fst (authorise (bcryptMatches ?e) (tokens ?s) (formToken ?r) (formSecret ?r)
                     (stringAt ?d ''secret''))"
    by (simp add: authorise_def checkPasswordHash_def stringAt_def defaultDetails_def)
  have pl: "progressLine 50 = ''Progress: Progress 50%''" by code_simp
  have old: "sliceAt (taskOutputs ?s) ''t'' = []" by (simp add: sliceAt_def initialState_def)
  have idle: "runningTasks ?s ''t'' = None" by (simp add: initialState_def)
  from getTaskOutput_appends_progress [OF prog, where e = ?e and line = "[]" and taskID = "''t''"
         and s = ?s and e' = ?e and line' = "[]" and chunk = "[]" and r = ?r]
  show ?thesis using cfg auth by (simp add: pl old idle)
qed

section \<open>Properties of the token lifetime\<close>

lemma sweepTokens_lookup:
  "sweepTokens now toks token
     = (case toks token of None \<Rightarrow> None
        | Some ts \<Rightarrow> if wrap64 (now - tokenTimeout) > ts then None else Some ts)"
  by (simp add: sweepTokens_def)

lemma clearExpiredTokens_lookup:
  "clearExpiredTokens n start toks token
     = (case toks token of
          None \<Rightarrow> None
        | Some ts \<Rightarrow>
            if \<exists>k<n. wrap64 (start + int k * tokenCheckPeriod - tokenTimeout) > ts then None
            else Some ts)"
proof (induction n arbitrary: start toks)
  case 0
  show ?case by (simp split: option.splits)
next
  case (Suc n)
  show ?case
  proof (cases "toks token")
    case None
    then show ?thesis by (simp add: Suc.IH sweepTokens_lookup)
  next
    case (Some ts)
    have shift: "start + tokenCheckPeriod + int k * tokenCheckPeriod
                 = start + int (Suc k) * tokenCheckPeriod" for k
      by (simp add: algebra_simps)
    have ex: "(\<exists>k<Suc n. wrap64 (start + int k * tokenCheckPeriod - tokenTimeout) > ts)
              = (wrap64 (start - tokenTimeout) > ts
                 \<or> (\<exists>k<n. wrap64 (start + tokenCheckPeriod + int k * tokenCheckPeriod
                                    - tokenTimeout) > ts))"
      unfolding shift by (auto simp: less_Suc_eq_0_disj)
    show ?thesis
      using Some by (simp add: Suc.IH sweepTokens_lookup ex del: of_nat_Suc)
  qed
qed


lemma apiRunTask_tokens: "tokens (snd (apiRunTask e taskID taskDetails rateLimit s)) = tokens s"
  by (simp add: apiRunTask_def Let_def)

lemma apiGetTaskOutput_tokens:
  "tokens (snd (apiGetTaskOutput e line taskID taskDetails s)) = tokens s"
  by (simp add: apiGetTaskOutput_def Let_def)

lemma dispatch_tokens:
  "tokens (snd (dispatch e r taskID token taskDetails rateLimit s)) = tokens s"
  by (simp add: dispatch_def apiRunTask_tokens apiGetTaskOutput_tokens split: file_status.splits)

lemma sweep_time_in_range:
  assumes "0 \<le> now" "now < 2 ^ 63"
  shows "wrap64 (now - tokenTimeout) = now - tokenTimeout"
proof (rule wrap64_id)
  show "- (2 ^ 63) \<le> now - tokenTimeout" using assms by (simp add: tokenTimeout_def)
  show "now - tokenTimeout < 2 ^ 63" using assms by (simp add: tokenTimeout_def)
qed

text \<open>
  Claim C4. A token in the map with a positive timestamp \<open>ts\<close> (its last issue or
  refresh) is accepted by the validity check at every time \<open>t\<close> up to
  \<open>ts + tokenTimeout\<close> and refused from \<open>ts + tokenTimeout + tokenCheckPeriod\<close> on, when the
  sweep has run every \<open>tokenCheckPeriod\<close> seconds since \<open>start\<close> and nothing else wrote the
  token meanwhile: in between, the answer depends on when the next sweep falls. One sweep
  at \<open>now\<close> removes exactly the tokens with \<open>now - timestamp > tokenTimeout\<close> and keeps the
  others as they are, and every authorised request sets the timestamp of its token to
  the current time.
\<close>

theorem token_validity_window:
  assumes issued: "toks token = Some ts" "0 < ts" "token \<noteq> []"
    and clock: "0 \<le> start" "start \<le> t" "t < 2 ^ 63"
  shows "(t \<le> ts + tokenTimeout \<longrightarrow>
            authorise matches
              (clearExpiredTokens (nat ((t - start) div tokenCheckPeriod) + 1) start toks)
              token secret stored = (True, ''unknown error''))
       \<and> (ts + tokenTimeout + tokenCheckPeriod \<le> t \<longrightarrow>
            authorise matches
              (clearExpiredTokens (nat ((t - start) div tokenCheckPeriod) + 1) start toks)
              token secret stored = (False, ''invalid or expired token''))
       \<and> (0 \<le> now \<and> now < 2 ^ 63 \<longrightarrow>
            sweepTokens now toks' k
              = (case toks' k of None \<Rightarrow> None
                 | Some v \<Rightarrow> if now - v > tokenTimeout then None else Some v))
       \<and> (formTaskID r \<noteq> [] \<and> getTaskDetails (files s) (formTaskID r) = Inr (taskDetails, None)
            \<and> fst (authorise (bcryptMatches e) (tokens s) (formToken r) (formSecret r)
                     (stringAt taskDetails ''secret''))
          \<longrightarrow> tokens (snd (handleTaskRequest e r s))
                = (tokens s)((if formToken r = [] then randomString e else formToken r)
                     \<mapsto> currentTimestamp e))"
proof (intro conjI impI)
  let ?n = "nat ((t - start) div tokenCheckPeriod) + 1"
  have q0: "0 \<le> (t - start) div tokenCheckPeriod"
    using clock by (simp add: tokenCheckPeriod_def)
  have sweep_time: "wrap64 (start + int k * tokenCheckPeriod - tokenTimeout)
                    = start + int k * tokenCheckPeriod - tokenTimeout" if "k < ?n" for k
  proof (rule sweep_time_in_range)
    show "0 \<le> start + int k * tokenCheckPeriod" using clock by (simp add: tokenCheckPeriod_def)
    from that q0 have "int k \<le> (t - start) div tokenCheckPeriod" by linarith
    then have "int k * tokenCheckPeriod \<le> (t - start) div tokenCheckPeriod * tokenCheckPeriod"
      by (simp add: tokenCheckPeriod_def)
    also have "\<dots> \<le> t - start"
      by (simp add: tokenCheckPeriod_def)
    finally show "start + int k * tokenCheckPeriod < 2 ^ 63" using clock by linarith
  qed
  have last_le: "start + int k * tokenCheckPeriod \<le> t" if "k < ?n" for k
  proof -
    from that q0 have "int k \<le> (t - start) div tokenCheckPeriod" by linarith
    then have "int k * tokenCheckPeriod \<le> (t - start) div tokenCheckPeriod * tokenCheckPeriod"
      by (simp add: tokenCheckPeriod_def)
    also have "\<dots> \<le> t - start"
      by (simp add: tokenCheckPeriod_def)
    finally show ?thesis by linarith
  qed
  {
    assume early: "t \<le> ts + tokenTimeout"
    have notex: "\<not> (\<exists>k<?n. wrap64 (start + int k * tokenCheckPeriod - tokenTimeout) > ts)"
    proof
      assume "\<exists>k<?n. wrap64 (start + int k * tokenCheckPeriod - tokenTimeout) > ts"
      then obtain k where k: "k < ?n" "wrap64 (start + int k * tokenCheckPeriod - tokenTimeout) > ts"
        by blast
      from k(2) sweep_time [OF k(1)] have "start + int k * tokenCheckPeriod - tokenTimeout > ts"
        by simp
      with last_le [OF k(1)] early show False by linarith
    qed
    have "clearExpiredTokens ?n start toks token = Some ts"
      using issued(1) notex by (subst clearExpiredTokens_lookup) simp
    then show "authorise matches (clearExpiredTokens ?n start toks) token secret stored
               = (True, ''unknown error'')"
      using issued by (simp add: authorise_def int64At_def)
  }
  {
    assume late: "ts + tokenTimeout + tokenCheckPeriod \<le> t"
    let ?k = "nat ((t - start) div tokenCheckPeriod)"
    have kn: "?k < ?n" by simp
    have "t - start < ((t - start) div tokenCheckPeriod) * tokenCheckPeriod + tokenCheckPeriod"
      using pos_mod_bound [of tokenCheckPeriod "t - start"]
            div_mult_mod_eq [of "t - start" tokenCheckPeriod]
      by (simp add: tokenCheckPeriod_def)
    then have "t - tokenCheckPeriod < start + int ?k * tokenCheckPeriod"
      using q0 by simp
    with late have "start + int ?k * tokenCheckPeriod - tokenTimeout > ts" by linarith
    with sweep_time [OF kn]
    have ex: "\<exists>k<?n. wrap64 (start + int k * tokenCheckPeriod - tokenTimeout) > ts"
      using kn by metis
    have "clearExpiredTokens ?n start toks token = None"
      using issued(1) ex by (subst clearExpiredTokens_lookup) simp
    then show "authorise matches (clearExpiredTokens ?n start toks) token secret stored
               = (False, ''invalid or expired token'')"
      using issued by (simp add: authorise_def int64At_def)
  }
  {
    assume "0 \<le> now \<and> now < 2 ^ 63"
    then have "wrap64 (now - tokenTimeout) = now - tokenTimeout"
      by (simp add: sweep_time_in_range)
    then show "sweepTokens now toks' k
              = (case toks' k of None \<Rightarrow> None
                 | Some v \<Rightarrow> if now - v > tokenTimeout then None else Some v)"
      by (auto simp: sweepTokens_lookup split: option.splits)
  }
  {
    assume "formTaskID r \<noteq> [] \<and> getTaskDetails (files s) (formTaskID r) = Inr (taskDetails, None)
            \<and> fst (authorise (bcryptMatches e) (tokens s) (formToken r) (formSecret r)
                     (stringAt taskDetails ''secret''))"
    then show "tokens (snd (handleTaskRequest e r s))
                = (tokens s)((if formToken r = [] then randomString e else formToken r)
                     \<mapsto> currentTimestamp e)"
      by (simp add: handleTaskRequest_def Let_def dispatch_tokens)
  }
qed


theorem token_validity_window_witness:
  "authorise UNIV (clearExpiredTokens 12 900 ((tokens (initialState noFiles))(''tok'' \<mapsto> 1000)))
     ''tok'' [] [] = (True, ''unknown error'')
   \<and> authorise UNIV (clearExpiredTokens 13 900 ((tokens (initialState noFiles))(''tok'' \<mapsto> 1000)))
     ''tok'' [] [] = (False, ''invalid or expired token'')
   \<and> sweepTokens 1620 ((tokens (initialState noFiles))(''tok'' \<mapsto> 1000)) ''tok'' = None
   \<and> sweepTokens 1600 ((tokens (initialState noFiles))(''tok'' \<mapsto> 1000)) ''tok'' = Some 1000
   \<and> tokens (snd (handleTaskRequest
         \<lparr>bcryptMatches = UNIV, currentTimestamp = 1100, startTimestamp = 1100,
          currentTime = 1100, randomString = ''abcdefghijklmnop'', floatPercentage = 0\<rparr>
         \<lparr>urlPath = ''/api/keepAlive'', formTaskID = ''t'', formToken = ''tok'', formSecret = [],
          formLine = []\<rparr>
         ((initialState (noFiles(''tasks/t/config.txt'' := Content ''progress: Y'')))
            \<lparr>tokens := (tokens (initialState noFiles))(''tok'' \<mapsto> 1000)\<rparr>))) ''tok''
     = Some 1100"
proof -
  let ?toks = "(tokens (initialState noFiles))(''tok'' \<mapsto> 1000)"
  let ?e = "\<lparr>bcryptMatches = UNIV, currentTimestamp = 1100, startTimestamp = 1100,
          currentTime = 1100, randomString = ''abcdefghijklmnop'', floatPercentage = 0\<rparr>"
  let ?r = "\<lparr>urlPath = ''/api/keepAlive'', formTaskID = ''t'', formToken = ''tok'', formSecret = [],
          formLine = []\<rparr>"
  let ?s = "(initialState (noFiles(''tasks/t/config.txt'' := Content ''progress: Y'')))
            \<lparr>tokens := ?toks\<rparr>"
  let ?d = "(defaultDetails ''t'')(''progress'' \<mapsto> ''Y'')"
  have i: "?toks ''tok'' = Some 1000" "(0::int) < 1000" "''tok'' \<noteq> []" by simp_all
  have ts: "TrimSpace ''progress'' = ''progress''" "TrimSpace '' Y'' = ''Y''" by code_simp+
  have cfg: "getTaskDetails (files ?s) ''t'' = Inr (?d, None)"
    by (simp add: getTaskDetails_def initialState_def scanLines_def dropCR_def SplitN2_def
          Let_def ts)
  have auth: "fst (authorise (bcryptMatches ?e) (tokens ?s) (formToken ?r) (formSecret ?r)
                     (stringAt ?d ''secret''))"
    by (simp add: authorise_def int64At_def)
  have n1: "nat ((1600 - 900) div tokenCheckPeriod) + 1 = 12"
    and n2: "nat ((1660 - 900) div tokenCheckPeriod) + 1 = 13"
    by (simp_all add: tokenCheckPeriod_def)
  from token_validity_window [where toks = ?toks and token = "''tok''" and ts = 1000
         and start = 900 and t = 1600 and matches = UNIV and secret = "[]" and stored = "[]"
         and now = 1620 and toks' = ?toks and k = "''tok''" and r = ?r and s = ?s
         and taskDetails = ?d and e = ?e]
       token_validity_window [where toks = ?toks and token = "''tok''" and ts = 1000
         and start = 900 and t = 1660 and matches = UNIV and secret = "[]" and stored = "[]"
         and now = 1600 and toks' = ?toks and k = "''tok''" and r = ?r and s = ?s
         and taskDetails = ?d and e = ?e]
       cfg auth
  show ?thesis
    by (simp add: n1 n2 tokenTimeout_def tokenCheckPeriod_def)
qed

section \<open>Starting a Task whose process cannot be spawned\<close>

text \<open>
  Claim C3. A Task whose configuration has no command line has the empty command string,
  which parses to no field at all; an authorised \<open>runTask\<close> request for it does not answer
  with an error: the handler reads \<open>commandArray[0]\<close> and ends in a panic, having written
  nothing.
\<close>

theorem empty_command_panics:
  "parseCommandString [] = []
   \<and> fst (handleTaskRequest
       \<lparr>bcryptMatches = UNIV, currentTimestamp = 1700000000, startTimestamp = 1700000000,
        currentTime = 1700000000, randomString = ''abcdefghijklmnop'', floatPercentage = 0\<rparr>
       \<lparr>urlPath = ''/api/runTask'', formTaskID = ''t'', formToken = [], formSecret = [],
        formLine = []\<rparr>
       (initialState (noFiles(''tasks/t/config.txt'' := Content ''title: T''))))
     = \<lparr>body = [], panicked = Some IndexOutOfRange, started = None\<rparr>"
  by code_simp

text \<open>
  Claim C1. A Task whose command names a program that cannot be started: the \<open>runTask\<close>
  request answers OK and issues the background run; the run finds that \<open>Start\<close> fails and
  returns, leaving the Task in \<open>runningTasks\<close>; a later \<open>getTaskRunning\<close> request answers
  YES. The error of the spawn reaches no response.
\<close>

theorem failed_spawn_stays_running:
  "fst (handleTaskRequest
       \<lparr>bcryptMatches = UNIV, currentTimestamp = 1700000000, startTimestamp = 1700000000,
        currentTime = 1700000000, randomString = ''abcdefghijklmnop'', floatPercentage = 0\<rparr>
       \<lparr>urlPath = ''/api/runTask'', formTaskID = ''t'', formToken = [], formSecret = [],
        formLine = []\<rparr>
       (initialState (noFiles(''tasks/t/config.txt'' := Content ''command: nosuchprogram''))))
     = \<lparr>body = ''OK'', panicked = None, started = Some ''t''\<rparr>
   \<and> \<not> isl (runTask StartFails [] 1700000001 True ''t''
       (snd (handleTaskRequest
         \<lparr>bcryptMatches = UNIV, currentTimestamp = 1700000000, startTimestamp = 1700000000,
          currentTime = 1700000000, randomString = ''abcdefghijklmnop'', floatPercentage = 0\<rparr>
         \<lparr>urlPath = ''/api/runTask'', formTaskID = ''t'', formToken = [], formSecret = [],
          formLine = []\<rparr>
         (initialState (noFiles(''tasks/t/config.txt'' := Content ''command: nosuchprogram''))))))
   \<and> taskIsRunning (projr (runTask StartFails [] 1700000001 True ''t''
       (snd (handleTaskRequest
         \<lparr>bcryptMatches = UNIV, currentTimestamp = 1700000000, startTimestamp = 1700000000,
          currentTime = 1700000000, randomString = ''abcdefghijklmnop'', floatPercentage = 0\<rparr>
         \<lparr>urlPath = ''/api/runTask'', formTaskID = ''t'', formToken = [], formSecret = [],
          formLine = []\<rparr>
         (initialState (noFiles(''tasks/t/config.txt'' := Content ''command: nosuchprogram''))))))) ''t''
   \<and> fst (handleTaskRequest
       \<lparr>bcryptMatches = UNIV, currentTimestamp = 1700000060, startTimestamp = 1700000060,
        currentTime = 1700000060, randomString = ''ponmlkjihgfedcba'', floatPercentage = 0\<rparr>
       \<lparr>urlPath = ''/api/getTaskRunning'', formTaskID = ''t'', formToken = [], formSecret = [],
        formLine = []\<rparr>
       (projr (runTask StartFails [] 1700000001 True ''t''
         (snd (handleTaskRequest
           \<lparr>bcryptMatches = UNIV, currentTimestamp = 1700000000, startTimestamp = 1700000000,
            currentTime = 1700000000, randomString = ''abcdefghijklmnop'', floatPercentage = 0\<rparr>
           \<lparr>urlPath = ''/api/runTask'', formTaskID = ''t'', formToken = [], formSecret = [],
            formLine = []\<rparr>
           (initialState (noFiles(''tasks/t/config.txt'' := Content ''command: nosuchprogram''))))))))
     = say ''YES''"
  by code_simp

section \<open>Properties of the command-line parser\<close>







































end
